theory Spec2Isabelle
  imports Main "HOL-Library.Sublist"
begin

section \<open>How a call ends\<close>

text \<open>
  A Go call of this package ends in one of three ways: it returns, it panics (a failed
  type assertion, a nil dereference, a write to a nil map), or it ends the process through
  \<^verbatim>\<open>log.Fatalf\<close>. The model keeps the three apart.
\<close>

datatype panic = NilDereference | InterfaceConversion | NilMapAssignment

datatype 'a outcome = Return 'a | Panic panic | Fatal string

definition and_then :: "'a outcome \<Rightarrow> ('a \<Rightarrow> 'b outcome) \<Rightarrow> 'b outcome" where
  "and_then m f = (case m of Return x \<Rightarrow> f x | Panic p \<Rightarrow> Panic p | Fatal e \<Rightarrow> Fatal e)"

section \<open>The collaborators of the package\<close>

subsection \<open>go-toml: the configuration tree\<close>

text \<open>
  \<^verbatim>\<open>Tree.Get\<close> returns an \<^verbatim>\<open>interface{}\<close>: nil where the dotted path leads nowhere,
  otherwise a value whose dynamic type is a string, an integer, a boolean or something
  else (a float, a time, an array, a subtree). The package only ever calls \<^verbatim>\<open>Get\<close>, so a
  tree is represented by what \<^verbatim>\<open>Get\<close> answers at each dotted path, \<open>None\<close> standing for
  the nil interface.
\<close>

datatype toml_value = TomlString string | TomlInt int | TomlBool bool | TomlOther

type_synonym toml_Tree = "string \<rightharpoonup> toml_value"

text \<open>
  \<^verbatim>\<open>ms.Config\<close> is a pointer \<^verbatim>\<open>*toml.Tree\<close>, nil until a file is loaded. \<^verbatim>\<open>Get\<close> with a
  non-empty key reads the fields of its receiver, so on a nil receiver it panics.
\<close>

definition Get :: "toml_Tree option \<Rightarrow> string \<Rightarrow> toml_value option outcome" where
  "Get t key = (case t of None \<Rightarrow> Panic NilDereference | Some tree \<Rightarrow> Return (tree key))"

text \<open>The type assertion \<^verbatim>\<open>x.(string)\<close> in its one-result form panics on any other type.\<close>

definition assert_string :: "toml_value option \<Rightarrow> string outcome" where
  "assert_string x = (case x of Some (TomlString s) \<Rightarrow> Return s | _ \<Rightarrow> Panic InterfaceConversion)"

text \<open>A tree given by its paths, for concrete configurations.\<close>

definition tree_of :: "(string \<times> toml_value) list \<Rightarrow> toml_Tree" where
  "tree_of kvs = map_of kvs"

subsection \<open>ls-superbase: the datastore descriptor\<close>

datatype gorm_DB = GormDB nat

record superbase_DBConfig =
  Server :: string
  Port :: string
  Database :: string
  User :: string
  Password :: string
  Driver :: string
  Path :: string
  Connection :: "gorm_DB option"

text \<open>The value of \<^verbatim>\<open>superbase.DBConfig{}\<close>.\<close>

definition zero_DBConfig :: superbase_DBConfig where
  "zero_DBConfig =
     \<lparr>Server = [], Port = [], Database = [], User = [], Password = [], Driver = [],
      Path = [], Connection = None\<rparr>"

text \<open>
  \<^verbatim>\<open>(*DBConfig).Init\<close> belongs to ls-superbase. It has a pointer receiver and no result
  that the caller reads: all it can hand back is the descriptor it leaves behind, unless
  it panics or ends the process. It is a parameter of the model.
\<close>

type_synonym superbase_Init = "superbase_DBConfig \<Rightarrow> superbase_DBConfig outcome"

subsection \<open>The store of descriptors\<close>

text \<open>
  The registry holds pointers \<^verbatim>\<open>*superbase.DBConfig\<close>, and the field assignments go through
  them. The descriptors live in a store; an address is an index into it and
  \<^verbatim>\<open>&superbase.DBConfig{}\<close> appends a cell. Go has no dangling pointer; an address
  outside the store is answered with a nil-dereference panic so that the model is total.
\<close>

type_synonym addr = nat

type_synonym store = "superbase_DBConfig list"

definition alloc :: "store \<Rightarrow> store \<times> addr" where
  "alloc h = (h @ [zero_DBConfig], length h)"

definition modify :: "store \<Rightarrow> addr option \<Rightarrow> (superbase_DBConfig \<Rightarrow> superbase_DBConfig) \<Rightarrow> store outcome" where
  "modify h ptr f =
     (case ptr of
        None \<Rightarrow> Panic NilDereference
      | Some p \<Rightarrow> if p < length h then Return (h[p := f (h ! p)]) else Panic NilDereference)"

section \<open>governor.go\<close>

record ManagerService =
  Config :: "toml_Tree option"
  DBConfig :: "(string \<rightharpoonup> addr option) option"

text \<open>
  Reading \<^verbatim>\<open>ms.DBConfig[app]\<close>: a nil map, a missing key and a key bound to a nil pointer
  all read as nil.
\<close>

definition index_map :: "(string \<rightharpoonup> addr option) option \<Rightarrow> string \<Rightarrow> addr option" where
  "index_map m app =
     (case m of None \<Rightarrow> None | Some entries \<Rightarrow> (case entries app of None \<Rightarrow> None | Some ptr \<Rightarrow> ptr))"

text \<open>
  \<^verbatim>\<open>fmt.Errorf("Configuration missing '%s' section under [%s] heading.\n", property, app)\<close>;
  an \<^verbatim>\<open>error\<close> is its message, and \<open>None\<close> is the nil error.
\<close>

type_synonym error = string

definition missing_property :: "string \<Rightarrow> string \<Rightarrow> error" where
  "missing_property property app =
     ''Configuration missing '' @ [CHR 0x27] @ property @ [CHR 0x27] @
     '' section under ['' @ app @ ''] heading.'' @ [CHR 0x0A]"

definition GetAppProperty :: "ManagerService \<Rightarrow> string \<Rightarrow> string \<Rightarrow> (string \<times> error option) outcome" where
  "GetAppProperty ms app property =
     and_then (Get (Config ms) (app @ ''.'' @ property)) (\<lambda>found.
       if found \<noteq> None then
         and_then (Get (Config ms) (app @ ''.'' @ property)) (\<lambda>v.
         and_then (assert_string v) (\<lambda>s. Return (s, None)))
       else Return ([], Some (missing_property property app)))"

text \<open>
  One line of the block that fills the descriptor, such as
  \<^verbatim>\<open>ms.DBConfig[app].Server, _ = ms.GetAppProperty(app, "dbserver")\<close>: the pointer is read,
  the property is resolved and its error dropped, then the field is written through the
  pointer.
\<close>

definition assign_field ::
  "(string \<Rightarrow> superbase_DBConfig \<Rightarrow> superbase_DBConfig) \<Rightarrow> string \<Rightarrow> ManagerService \<Rightarrow> string \<Rightarrow> store \<Rightarrow> store outcome" where
  "assign_field setter property ms app h =
     (let ptr = index_map (DBConfig ms) app in
      and_then (GetAppProperty ms app property) (\<lambda>(v, _). modify h ptr (setter v)))"

text \<open>\<^verbatim>\<open>ms.DBConfig[app].Init()\<close>.\<close>

definition call_Init :: "superbase_Init \<Rightarrow> ManagerService \<Rightarrow> string \<Rightarrow> store \<Rightarrow> store outcome" where
  "call_Init Init ms app h =
     (case index_map (DBConfig ms) app of
        None \<Rightarrow> Panic NilDereference
      | Some p \<Rightarrow>
          if p < length h then and_then (Init (h ! p)) (\<lambda>d. Return (h[p := d]))
          else Panic NilDereference)"

text \<open>
  The first statement of \<^verbatim>\<open>InitDatastore\<close>: an entry that reads as nil is bound to a new
  descriptor. Writing into a nil map panics.
\<close>

definition ensure_entry :: "store \<Rightarrow> ManagerService \<Rightarrow> string \<Rightarrow> (store \<times> ManagerService) outcome" where
  "ensure_entry h ms app =
     (if index_map (DBConfig ms) app = None then
        (case DBConfig ms of
           None \<Rightarrow> Panic NilMapAssignment
         | Some entries \<Rightarrow>
             (let (h', p) = alloc h
              in Return (h', ms\<lparr>DBConfig := Some (entries(app \<mapsto> Some p))\<rparr>)))
      else Return (h, ms))"

definition InitDatastore ::
  "superbase_Init \<Rightarrow> store \<Rightarrow> ManagerService \<Rightarrow> string \<Rightarrow> (store \<times> ManagerService \<times> bool) outcome" where
  "InitDatastore Init h ms app =
     and_then (ensure_entry h ms app) (\<lambda>(h0, ms').
     (let success = True in
      and_then (assign_field (\<lambda>v d. d\<lparr>Server := v\<rparr>) ''dbserver'' ms' app h0) (\<lambda>h1.
      and_then (assign_field (\<lambda>v d. d\<lparr>Port := v\<rparr>) ''dbport'' ms' app h1) (\<lambda>h2.
      and_then (assign_field (\<lambda>v d. d\<lparr>Database := v\<rparr>) ''database'' ms' app h2) (\<lambda>h3.
      and_then (assign_field (\<lambda>v d. d\<lparr>User := v\<rparr>) ''dbuser'' ms' app h3) (\<lambda>h4.
      and_then (assign_field (\<lambda>v d. d\<lparr>Password := v\<rparr>) ''dbpassword'' ms' app h4) (\<lambda>h5.
      and_then (assign_field (\<lambda>v d. d\<lparr>Driver := v\<rparr>) ''dbdriver'' ms' app h5) (\<lambda>h6.
      and_then (assign_field (\<lambda>v d. d\<lparr>Path := v\<rparr>) ''dbpath'' ms' app h6) (\<lambda>h7.
      and_then (call_Init Init ms' app h7) (\<lambda>h8.
      Return (h8, ms', success)))))))))))"

text \<open>
  \<^verbatim>\<open>InitManager\<close> asks the file system two things: whether \<^verbatim>\<open>os.Stat\<close> fails with a
  does-not-exist error, and what \<^verbatim>\<open>toml.LoadFile\<close> returns, a tree pointer and an error.
  \<^verbatim>\<open>log.Fatalf\<close> prints the message and ends the process.
\<close>

record filesystem =
  IsNotExist :: "string \<Rightarrow> bool"
  LoadFile :: "string \<Rightarrow> toml_Tree option \<times> error option"

definition InitManager :: "filesystem \<Rightarrow> ManagerService \<Rightarrow> string \<Rightarrow> ManagerService outcome" where
  "InitManager fs ms cfgfile =
     (if IsNotExist fs cfgfile then
        Fatal (''File '' @ [CHR 0x27] @ cfgfile @ [CHR 0x27] @ '' does not exist.'' @ [CHR 0x0A])
      else
        (let (tree, _) = LoadFile fs cfgfile
         in Return (ms\<lparr>Config := tree, DBConfig := Some Map.empty\<rparr>)))"

subsection \<open>CreateAPI\<close>

text \<open>
  \<^verbatim>\<open>strings.ToUpper\<close> of the standard library first scans the bytes of the string. When no
  byte reaches \<^verbatim>\<open>utf8.RuneSelf\<close> (0x80) the string is ASCII and each byte from \<^verbatim>\<open>a\<close> to
  \<^verbatim>\<open>z\<close> is lowered by \<^verbatim>\<open>'a' - 'A'\<close>; every other byte stays. Otherwise the result is
  \<^verbatim>\<open>Map(unicode.ToUpper, s)\<close>, which decodes the runes and maps them through the Unicode
  case tables. Those tables are not part of the package: the mapping of a string that is
  not ASCII is a parameter of the model.
\<close>

definition isASCII :: "string \<Rightarrow> bool" where
  "isASCII s = (\<not> list_ex (\<lambda>c. (128::nat) \<le> of_char c) s)"

definition upper_byte :: "char \<Rightarrow> char" where
  "upper_byte c =
     (if (97::nat) \<le> of_char c \<and> of_char c \<le> (122::nat) then char_of (of_char c - (32::nat)) else c)"

definition ToUpper :: "(string \<Rightarrow> string) \<Rightarrow> string \<Rightarrow> string" where
  "ToUpper Map_unicode_ToUpper s = (if isASCII s then map upper_byte s else Map_unicode_ToUpper s)"

text \<open>
  Modelled from the spec: \<^verbatim>\<open>config.Getenv\<close> of the package ls-config, which is not among the
  sources. Section 4.4: ``If either variable is unset, substitutes a fixed default''. The
  process environment is a map from variable names to values.
\<close>

type_synonym environment = "string \<rightharpoonup> string"

definition Getenv :: "environment \<Rightarrow> string \<Rightarrow> string \<Rightarrow> string" where
  "Getenv env key fallback = (case env key of None \<Rightarrow> fallback | Some v \<Rightarrow> v)"

text \<open>\<^verbatim>\<open>fibre.NewWebService(app, address)\<close> is kept as the call it is.\<close>

datatype fibre_WebService = NewWebService string string

record API =
  WebService :: fibre_WebService
  ManagerService :: ManagerService

definition NewAPI :: "fibre_WebService \<Rightarrow> ManagerService \<Rightarrow> API" where
  "NewAPI ws ms = \<lparr>WebService = ws, ManagerService = ms\<rparr>"

definition CreateAPI :: "(string \<Rightarrow> string) \<Rightarrow> environment \<Rightarrow> ManagerService \<Rightarrow> string \<Rightarrow> API" where
  "CreateAPI Map_unicode_ToUpper env ms app =
     (let ua = ToUpper Map_unicode_ToUpper app;
          address = Getenv env (ua @ ''_HOST'') ''127.0.0.1'' @ '':'' @ Getenv env (ua @ ''_PORT'') ''7990'';
          ws = NewWebService app address
      in NewAPI ws ms)"

text \<open>The address a web service was created with.\<close>

fun address_of :: "fibre_WebService \<Rightarrow> string" where
  "address_of (NewWebService app address) = address"

section \<open>Notions used to state the properties\<close>

text \<open>
  Upper-casing a letter, by the alphabet: the twenty-six small letters go to their
  capitals, any other byte is kept.
\<close>

definition ascii_upper :: "char \<Rightarrow> char" where
  "ascii_upper c =
     (case map_of (zip ''abcdefghijklmnopqrstuvwxyz'' ''ABCDEFGHIJKLMNOPQRSTUVWXYZ'') c of
        Some C \<Rightarrow> C
      | None \<Rightarrow> c)"

text \<open>The property names that \<^verbatim>\<open>InitDatastore\<close> resolves, in the order of its lines.\<close>

definition db_properties :: "string list" where
  "db_properties =
     [''dbserver'', ''dbport'', ''database'', ''dbuser'', ''dbpassword'', ''dbdriver'', ''dbpath'']"

text \<open>The fields of a descriptor in the same order.\<close>

definition fields :: "superbase_DBConfig \<Rightarrow> string list" where
  "fields d = [Server d, Port d, Database d, User d, Password d, Driver d, Path d]"

text \<open>What a lookup answers when the property is absent or a string.\<close>

definition string_or_absent :: "toml_value option \<Rightarrow> bool" where
  "string_or_absent x = (case x of None \<Rightarrow> True | Some (TomlString s) \<Rightarrow> True | Some _ \<Rightarrow> False)"

text \<open>The configured value of a property when it is present, the empty string when it is absent.\<close>

definition value_or_empty :: "toml_Tree \<Rightarrow> string \<Rightarrow> string \<Rightarrow> string" where
  "value_or_empty t app property =
     (case t (app @ ''.'' @ property) of Some (TomlString v) \<Rightarrow> v | _ \<Rightarrow> [])"

text \<open>A descriptor with its seven fields taken from section \<open>app\<close> of the tree.\<close>

definition configured :: "toml_Tree \<Rightarrow> string \<Rightarrow> superbase_DBConfig \<Rightarrow> superbase_DBConfig" where
  "configured t app d =
     d\<lparr>Server := value_or_empty t app ''dbserver'',
       Port := value_or_empty t app ''dbport'',
       Database := value_or_empty t app ''database'',
       User := value_or_empty t app ''dbuser'',
       Password := value_or_empty t app ''dbpassword'',
       Driver := value_or_empty t app ''dbdriver'',
       Path := value_or_empty t app ''dbpath''\<rparr>"

text \<open>
  The registry as the package itself builds it: every pointer leads into the store, and no
  descriptor is reached from two application names. \<^verbatim>\<open>InitManager\<close> starts from the empty
  map and \<^verbatim>\<open>InitDatastore\<close> only ever binds a name to a new descriptor, so both hold from
  then on (lemmas \<open>InitManager_registry_ok\<close> and \<open>InitDatastore_registry_ok\<close>).
\<close>

definition registry_ok :: "store \<Rightarrow> ManagerService \<Rightarrow> bool" where
  "registry_ok h ms =
     (\<forall>a p. index_map (DBConfig ms) a = Some p \<longrightarrow>
        p < length h \<and> (\<forall>b. index_map (DBConfig ms) b = Some p \<longrightarrow> b = a))"

text \<open>A storage engine leaves the seven fields of the descriptor as it finds them.\<close>

definition keeps_fields :: "superbase_Init \<Rightarrow> bool" where
  "keeps_fields Init = (\<forall>d d'. Init d = Return d' \<longrightarrow> fields d' = fields d)"

subsection \<open>Concrete configurations\<close>

text \<open>
  The configuration of the first scenario of the specification:
  \<^verbatim>\<open>[shop] dbdriver = "sqlite3", dbpath = "shop.db"\<close>.
\<close>

definition shop_tree :: toml_Tree where
  "shop_tree =
     tree_of [(''shop.dbdriver'', TomlString ''sqlite3''), (''shop.dbpath'', TomlString ''shop.db'')]"

definition shop_manager :: ManagerService where
  "shop_manager = \<lparr>Config = Some shop_tree, DBConfig = Some Map.empty\<rparr>"

text \<open>\<^verbatim>\<open>&governor.ManagerService{}\<close>, before any file is loaded.\<close>

definition new_manager :: ManagerService where
  "new_manager = \<lparr>Config = None, DBConfig = None\<rparr>"

text \<open>
  A stand-in for the storage engine: it opens a connection for an sqlite3 descriptor with
  a path and leaves the handle nil for anything else, touching no other field.
\<close>

definition sqlite_only :: superbase_Init where
  "sqlite_only d =
     (if Driver d = ''sqlite3'' \<and> Path d \<noteq> [] then Return (d\<lparr>Connection := Some (GormDB 1)\<rparr>)
      else Return (d\<lparr>Connection := None\<rparr>))"

text \<open>A section whose port is written as a TOML integer: \<^verbatim>\<open>[shop] dbport = 5432\<close>.\<close>

definition int_port_tree :: toml_Tree where
  "int_port_tree = tree_of [(''shop.dbport'', TomlInt 5432)]"

text \<open>
  A file system in which \<^verbatim>\<open>config.toml\<close> exists and does not parse: \<^verbatim>\<open>toml.LoadFile\<close>
  returns a nil tree and an error.
\<close>

definition unparsable_fs :: filesystem where
  "unparsable_fs =
     \<lparr>IsNotExist = (\<lambda>path. path \<noteq> ''config.toml''),
      LoadFile = (\<lambda>path. (None, Some ''toml: parse error''))\<rparr>"

text \<open>Two sections that differ in one property: set to the empty string, or absent.\<close>

definition empty_path_tree :: toml_Tree where
  "empty_path_tree =
     tree_of [(''shop.dbdriver'', TomlString ''sqlite3''), (''shop.dbpath'', TomlString [])]"

definition absent_path_tree :: toml_Tree where
  "absent_path_tree = tree_of [(''shop.dbdriver'', TomlString ''sqlite3'')]"

text \<open>A later configuration of the same application: \<^verbatim>\<open>[shop] dbserver = "db.local"\<close>.\<close>

definition server_tree :: toml_Tree where
  "server_tree = tree_of [(''shop.dbserver'', TomlString ''db.local'')]"

text \<open>A registry that already holds a connected descriptor for \<^verbatim>\<open>blog\<close>.\<close>

definition blog_descriptor :: superbase_DBConfig where
  "blog_descriptor =
     \<lparr>Server = ''db.local'', Port = ''5432'', Database = ''blog'', User = ''writer'',
      Password = ''secret'', Driver = ''postgres'', Path = [], Connection = Some (GormDB 7)\<rparr>"

definition blog_manager :: ManagerService where
  "blog_manager = \<lparr>Config = Some shop_tree, DBConfig = Some [''blog'' \<mapsto> Some 0]\<rparr>"

section \<open>Basic facts\<close>

lemma and_then_Return [simp]: "and_then (Return x) f = f x"
  by (simp add: and_then_def)

lemma and_then_Panic [simp]: "and_then (Panic p) f = Panic p"
  by (simp add: and_then_def)

lemma and_then_Fatal [simp]: "and_then (Fatal e) f = Fatal e"
  by (simp add: and_then_def)

lemma and_then_assoc [simp]: "and_then (and_then m f) g = and_then m (\<lambda>x. and_then (f x) g)"
  by (cases m) simp_all

lemma and_then_eq_Return: "and_then m f = Return y \<longleftrightarrow> (\<exists>x. m = Return x \<and> f x = Return y)"
  by (cases m) simp_all

lemma GetAppProperty_nil: "Config ms = None \<Longrightarrow> GetAppProperty ms app property = Panic NilDereference"
  by (simp add: GetAppProperty_def Get_def)

lemma GetAppProperty_loaded:
  "Config ms = Some t \<Longrightarrow>
   GetAppProperty ms app property =
     (case t (app @ ''.'' @ property) of
        None \<Rightarrow> Return ([], Some (missing_property property app))
      | Some (TomlString s) \<Rightarrow> Return (s, None)
      | Some _ \<Rightarrow> Panic InterfaceConversion)"
  by (simp add: GetAppProperty_def Get_def assert_string_def split: option.splits toml_value.splits)

lemma assign_field_loaded:
  assumes "Config ms = Some t" and "index_map (DBConfig ms) app = Some p" and "p < length h"
  shows "assign_field setter property ms app h =
     (if string_or_absent (t (app @ ''.'' @ property))
      then Return (h[p := setter (value_or_empty t app property) (h ! p)])
      else Panic InterfaceConversion)"
  using assms
  by (simp add: assign_field_def GetAppProperty_loaded modify_def string_or_absent_def
      value_or_empty_def split: option.splits toml_value.splits)

lemma assign_field_Return:
  assumes "assign_field setter property ms app h = Return h'"
  shows "\<exists>t p. Config ms = Some t \<and> index_map (DBConfig ms) app = Some p \<and> p < length h \<and>
     string_or_absent (t (app @ ''.'' @ property)) \<and> length h' = length h"
proof (cases "Config ms")
  case None
  with assms show ?thesis by (simp add: assign_field_def GetAppProperty_nil)
next
  case (Some t)
  with assms show ?thesis
    by (auto simp: assign_field_def GetAppProperty_loaded modify_def string_or_absent_def
      split: option.splits toml_value.splits if_splits)
qed

lemma fields_configured: "fields (configured t app d) = map (value_or_empty t app) db_properties"
  by (simp add: fields_def configured_def db_properties_def)

section \<open>Resolving a property\<close>

text \<open>
  C1. With a configuration loaded, \<^verbatim>\<open>GetAppProperty(A, k)\<close> returns \<open>v\<close> and a nil error
  when \<open>A.k\<close> is the string \<open>v\<close>; it returns the error of \<^verbatim>\<open>fmt.Errorf\<close>, whose message
  contains both \<open>A\<close> and \<open>k\<close>, exactly when the path \<open>A.k\<close> is absent; and a result with a
  nil error is never produced for an absent path: it is produced exactly for the string
  found there.
\<close>

theorem GetAppProperty_resolves:
  assumes "Config ms = Some t"
  shows "(t (A @ ''.'' @ k) = Some (TomlString v) \<longrightarrow> GetAppProperty ms A k = Return (v, None)) \<and>
    (t (A @ ''.'' @ k) = None \<longrightarrow>
       GetAppProperty ms A k = Return ([], Some (missing_property k A))) \<and>
    ((\<exists>s e. GetAppProperty ms A k = Return (s, Some e)) \<longleftrightarrow> t (A @ ''.'' @ k) = None) \<and>
    (\<forall>s. GetAppProperty ms A k = Return (s, None) \<longleftrightarrow> t (A @ ''.'' @ k) = Some (TomlString s)) \<and>
    sublist A (missing_property k A) \<and> sublist k (missing_property k A)"
proof -
  have "sublist A (missing_property k A)"
    unfolding missing_property_def sublist_def
    by (rule exI [of _ "''Configuration missing '' @ [CHR 0x27] @ k @ [CHR 0x27] @ '' section under [''"],
        rule exI [of _ "''] heading.'' @ [CHR 0x0A]"]) simp
  moreover have "sublist k (missing_property k A)"
    unfolding missing_property_def sublist_def
    by (rule exI [of _ "''Configuration missing '' @ [CHR 0x27]"],
        rule exI [of _ "[CHR 0x27] @ '' section under ['' @ A @ ''] heading.'' @ [CHR 0x0A]"]) simp
  ultimately show ?thesis
    using assms
    by (auto simp: GetAppProperty_loaded split: option.splits toml_value.splits)
qed

theorem GetAppProperty_resolves_witness:
  "GetAppProperty shop_manager ''shop'' ''dbpath'' = Return (''shop.db'', None) \<and>
   GetAppProperty shop_manager ''shop'' ''dbserver'' =
     Return ([], Some (missing_property ''dbserver'' ''shop''))"
proof -
  have c: "Config shop_manager = Some shop_tree"
    by (simp add: shop_manager_def)
  have p: "shop_tree (''shop'' @ ''.'' @ ''dbpath'') = Some (TomlString ''shop.db'')"
    by (simp add: shop_tree_def tree_of_def)
  have q: "shop_tree (''shop'' @ ''.'' @ ''dbserver'') = None"
    by (simp add: shop_tree_def tree_of_def)
  from GetAppProperty_resolves [OF c, of "''shop''" "''dbpath''" "''shop.db''"] p
  have "GetAppProperty shop_manager ''shop'' ''dbpath'' = Return (''shop.db'', None)"
    by blast
  moreover from GetAppProperty_resolves [OF c, of "''shop''" "''dbserver''"] q
  have "GetAppProperty shop_manager ''shop'' ''dbserver'' =
      Return ([], Some (missing_property ''dbserver'' ''shop''))"
    by blast
  ultimately show ?thesis by simp
qed

text \<open>
  C7. A path that holds a value of another type than string does not give an error: the
  type assertion panics. For \<^verbatim>\<open>[shop] dbport = 5432\<close>, \<^verbatim>\<open>GetAppProperty("shop", "dbport")\<close>
  ends in the interface-conversion panic.
\<close>

theorem GetAppProperty_int_port_panics:
  "GetAppProperty \<lparr>Config = Some int_port_tree, DBConfig = Some Map.empty\<rparr> ''shop'' ''dbport'' =
     Panic InterfaceConversion"
  by (simp add: GetAppProperty_def Get_def assert_string_def int_port_tree_def tree_of_def)

text \<open>
  C8, as amended. On a manager whose configuration was never loaded, \<^verbatim>\<open>GetAppProperty\<close>
  returns nothing at all, neither a value nor an error: the call panics on the nil tree.
\<close>

theorem GetAppProperty_before_load:
  assumes "Config ms = None"
  shows "GetAppProperty ms A k = Panic NilDereference \<and> (\<forall>r. GetAppProperty ms A k \<noteq> Return r)"
  using assms by (simp add: GetAppProperty_nil)

theorem GetAppProperty_before_load_witness:
  "GetAppProperty new_manager ''shop'' ''dbserver'' = Panic NilDereference"
proof -
  have "Config new_manager = None"
    by (simp add: new_manager_def)
  from GetAppProperty_before_load [OF this] show ?thesis
    by blast
qed

theorem GetAppProperty_before_load_counterexample:
  "GetAppProperty new_manager ''shop'' ''dbpath'' = Panic NilDereference \<and>
   \<not> (\<exists>s e. GetAppProperty new_manager ''shop'' ''dbpath'' = Return (s, Some e))"
  by (simp add: GetAppProperty_def Get_def new_manager_def)

section \<open>Loading the configuration\<close>

lemma InitManager_missing_file:
  "IsNotExist fs cfgfile \<Longrightarrow> \<exists>msg. InitManager fs ms cfgfile = Fatal msg"
  by (simp add: InitManager_def)

lemma InitManager_registry_ok:
  "InitManager fs ms cfgfile = Return ms' \<Longrightarrow> registry_ok h ms'"
  by (auto simp: InitManager_def registry_ok_def index_map_def split: if_splits prod.splits)

text \<open>
  C6. A file that exists and does not parse: \<^verbatim>\<open>InitManager\<close> returns, the error of
  \<^verbatim>\<open>toml.LoadFile\<close> is dropped, and the manager goes on with a nil tree and an empty
  registry; the next \<^verbatim>\<open>GetAppProperty\<close> panics on it.
\<close>

theorem InitManager_unparsable_file:
  "InitManager unparsable_fs new_manager ''config.toml'' =
     Return \<lparr>Config = None, DBConfig = Some Map.empty\<rparr> \<and>
   GetAppProperty \<lparr>Config = None, DBConfig = Some Map.empty\<rparr> ''shop'' ''dbpath'' =
     Panic NilDereference"
  by (simp add: InitManager_def unparsable_fs_def new_manager_def GetAppProperty_def Get_def)

section \<open>The listening address\<close>

lemma upper_byte_letters: "\<forall>c \<in> set ''abcdefghijklmnopqrstuvwxyz''. upper_byte c = ascii_upper c"
  by code_simp

lemma letters_of_range: "\<forall>n \<in> set [97..<123]. char_of (n::nat) \<in> set ''abcdefghijklmnopqrstuvwxyz''"
  by code_simp

lemma upper_byte_ascii_upper: "upper_byte c = ascii_upper c"
proof (cases "c \<in> set ''abcdefghijklmnopqrstuvwxyz''")
  case True
  with upper_byte_letters show ?thesis by blast
next
  case False
  have n: "\<not> ((97::nat) \<le> of_char c \<and> of_char c \<le> (122::nat))"
  proof
    assume "(97::nat) \<le> of_char c \<and> of_char c \<le> (122::nat)"
    then have "(of_char c :: nat) \<in> {97..<123}" by auto
    then have "(of_char c :: nat) \<in> set [97..<123]" by (simp only: set_upt)
    with letters_of_range have "char_of (of_char c :: nat) \<in> set ''abcdefghijklmnopqrstuvwxyz''"
      by blast
    with False show False by (simp only: char_of_char)
  qed
  have m: "map_of (zip ''abcdefghijklmnopqrstuvwxyz'' ''ABCDEFGHIJKLMNOPQRSTUVWXYZ'') c = None"
    using False by (simp only: map_of_eq_None_iff) simp
  have "upper_byte c = c"
    by (simp only: upper_byte_def n if_False)
  moreover have "ascii_upper c = c"
    by (simp only: ascii_upper_def m option.case)
  ultimately show ?thesis
    by (simp only:)
qed

lemma upper_byte_eq: "upper_byte = ascii_upper"
  by (rule ext) (rule upper_byte_ascii_upper)

lemma isASCII_iff: "isASCII s \<longleftrightarrow> list_all (\<lambda>c. (of_char c :: nat) < 128) s"
  by (induction s) (auto simp: isASCII_def)

lemma ToUpper_ASCII: "list_all (\<lambda>c. (of_char c :: nat) < 128) s \<Longrightarrow> ToUpper up s = map ascii_upper s"
  by (simp add: ToUpper_def isASCII_iff upper_byte_eq)

lemma ToUpper_length: "list_all (\<lambda>c. (of_char c :: nat) < 128) s \<Longrightarrow> length (ToUpper up s) = length s"
  by (simp add: ToUpper_ASCII)

text \<open>
  C5. The address \<^verbatim>\<open>CreateAPI\<close> hands to \<^verbatim>\<open>fibre.NewWebService\<close> is \<open>host:port\<close>. The two
  variables are named by the upper-cased application name followed by \<^verbatim>\<open>_HOST\<close> and
  \<^verbatim>\<open>_PORT\<close>: for an ASCII name each small letter is replaced by its capital and every
  other byte is kept, and for any other name the name is mapped through the Unicode case
  tables. The host is the value of the first variable when it is set and \<^verbatim>\<open>127.0.0.1\<close>
  otherwise, the port the value of the second when it is set and \<^verbatim>\<open>7990\<close> otherwise. The
  whole result is this function of the name, the environment and the manager.
\<close>

theorem CreateAPI_address:
  "(let ua = (if list_all (\<lambda>c. (of_char c :: nat) < 128) A then map ascii_upper A
              else Map_unicode_ToUpper A);
        host = (case env (ua @ ''_HOST'') of Some v \<Rightarrow> v | None \<Rightarrow> ''127.0.0.1'');
        port = (case env (ua @ ''_PORT'') of Some v \<Rightarrow> v | None \<Rightarrow> ''7990'')
    in CreateAPI Map_unicode_ToUpper env ms A =
         \<lparr>WebService = NewWebService A (host @ '':'' @ port), ManagerService = ms\<rparr>)"
  by (simp add: CreateAPI_def NewAPI_def Getenv_def ToUpper_def isASCII_iff upper_byte_eq
      Let_def split: option.splits)

theorem CreateAPI_address_witness:
  "\<forall>Map_unicode_ToUpper.
     address_of (WebService (CreateAPI Map_unicode_ToUpper [''SHOP_PORT'' \<mapsto> ''9000''] shop_manager ''shop'')) =
       ''127.0.0.1:9000'' \<and>
     address_of (WebService (CreateAPI Map_unicode_ToUpper [''BLOG-2_HOST'' \<mapsto> ''0.0.0.0''] shop_manager ''Blog-2'')) =
       ''0.0.0.0:7990''"
proof
  fix up :: "string \<Rightarrow> string"
  have a: "list_all (\<lambda>c. (of_char c :: nat) < 128) ''shop''"
    "list_all (\<lambda>c. (of_char c :: nat) < 128) ''Blog-2''"
    by code_simp+
  have u: "map ascii_upper ''shop'' = ''SHOP''" "map ascii_upper ''Blog-2'' = ''BLOG-2''"
    by code_simp+
  have "CreateAPI up [''SHOP_PORT'' \<mapsto> ''9000''] shop_manager ''shop'' =
      \<lparr>WebService = NewWebService ''shop''
         ((case [''SHOP_PORT'' \<mapsto> ''9000''] (''SHOP'' @ ''_HOST'') of Some v \<Rightarrow> v | None \<Rightarrow> ''127.0.0.1'') @ '':'' @
          (case [''SHOP_PORT'' \<mapsto> ''9000''] (''SHOP'' @ ''_PORT'') of Some v \<Rightarrow> v | None \<Rightarrow> ''7990'')),
       ManagerService = shop_manager\<rparr>"
    using CreateAPI_address [of "''shop''" up "[''SHOP_PORT'' \<mapsto> ''9000'']" shop_manager]
    by (simp only: Let_def a u if_True)
  then have "address_of (WebService (CreateAPI up [''SHOP_PORT'' \<mapsto> ''9000''] shop_manager ''shop'')) =
      ''127.0.0.1:9000''"
    by simp
  moreover
  have "CreateAPI up [''BLOG-2_HOST'' \<mapsto> ''0.0.0.0''] shop_manager ''Blog-2'' =
      \<lparr>WebService = NewWebService ''Blog-2''
         ((case [''BLOG-2_HOST'' \<mapsto> ''0.0.0.0''] (''BLOG-2'' @ ''_HOST'') of Some v \<Rightarrow> v | None \<Rightarrow> ''127.0.0.1'') @ '':'' @
          (case [''BLOG-2_HOST'' \<mapsto> ''0.0.0.0''] (''BLOG-2'' @ ''_PORT'') of Some v \<Rightarrow> v | None \<Rightarrow> ''7990'')),
       ManagerService = shop_manager\<rparr>"
    using CreateAPI_address [of "''Blog-2''" up "[''BLOG-2_HOST'' \<mapsto> ''0.0.0.0'']" shop_manager]
    by (simp only: Let_def a u if_True)
  then have "address_of (WebService (CreateAPI up [''BLOG-2_HOST'' \<mapsto> ''0.0.0.0''] shop_manager ''Blog-2'')) =
      ''0.0.0.0:7990''"
    by simp
  ultimately show "address_of (WebService (CreateAPI up [''SHOP_PORT'' \<mapsto> ''9000''] shop_manager ''shop'')) =
       ''127.0.0.1:9000'' \<and>
     address_of (WebService (CreateAPI up [''BLOG-2_HOST'' \<mapsto> ''0.0.0.0''] shop_manager ''Blog-2'')) =
       ''0.0.0.0:7990''"
    by simp
qed

section \<open>Building a descriptor\<close>

lemma InitDatastore_entry:
  assumes "Config ms = Some t" and "index_map (DBConfig ms) app = Some p" and "p < length h"
    and "\<forall>k \<in> set db_properties. string_or_absent (t (app @ ''.'' @ k))"
  shows "InitDatastore Init h ms app =
     and_then (Init (configured t app (h ! p))) (\<lambda>d. Return (h[p := d], ms, True))"
  using assms
  by (simp add: InitDatastore_def ensure_entry_def assign_field_loaded call_Init_def
      db_properties_def configured_def)

lemma ensure_entry_Return:
  assumes "ensure_entry h ms app = Return (h0, ms')"
  shows "index_map (DBConfig ms') app \<noteq> None"
  using assms
  by (auto simp: ensure_entry_def alloc_def index_map_def split: if_splits option.splits)

lemma InitDatastore_after_ensure:
  assumes "ensure_entry h ms app = Return (h0, ms')"
  shows "InitDatastore Init h ms app = InitDatastore Init h0 ms' app"
proof -
  have "ensure_entry h0 ms' app = Return (h0, ms')"
    using ensure_entry_Return [OF assms] by (auto simp: ensure_entry_def)
  with assms show ?thesis
    by (simp add: InitDatastore_def)
qed

lemma InitDatastore_fresh:
  assumes "Config ms = Some t" and "DBConfig ms = Some entries" and "index_map (DBConfig ms) app = None"
    and "\<forall>k \<in> set db_properties. string_or_absent (t (app @ ''.'' @ k))"
  shows "InitDatastore Init h ms app =
     and_then (Init (configured t app zero_DBConfig))
       (\<lambda>d. Return (h @ [d], ms\<lparr>DBConfig := Some (entries(app \<mapsto> Some (length h)))\<rparr>, True))"
proof -
  let ?ms = "ms\<lparr>DBConfig := Some (entries(app \<mapsto> Some (length h)))\<rparr>"
  have c: "Config ?ms = Some t" using assms(1) by simp
  have i: "index_map (DBConfig ?ms) app = Some (length h)" by (simp add: index_map_def)
  have e: "ensure_entry h ms app = Return (h @ [zero_DBConfig], ?ms)"
    using assms(2,3) by (simp add: ensure_entry_def alloc_def)
  have "InitDatastore Init (h @ [zero_DBConfig]) ?ms app =
     and_then (Init (configured t app ((h @ [zero_DBConfig]) ! length h)))
       (\<lambda>d. Return ((h @ [zero_DBConfig])[length h := d], ?ms, True))"
    by (rule InitDatastore_entry [OF c i _ assms(4)]) simp
  then show ?thesis
    by (simp add: InitDatastore_after_ensure [OF e])
qed

lemma InitDatastore_nil_map:
  "DBConfig ms = None \<Longrightarrow> InitDatastore Init h ms app = Panic NilMapAssignment"
  by (simp add: InitDatastore_def ensure_entry_def index_map_def)

lemma InitDatastore_outside_store:
  assumes "Config ms = Some t" and "index_map (DBConfig ms) app = Some p" and "\<not> p < length h"
    and "string_or_absent (t (app @ ''.'' @ ''dbserver''))"
  shows "InitDatastore Init h ms app = Panic NilDereference"
  using assms
  by (simp add: InitDatastore_def ensure_entry_def assign_field_def GetAppProperty_loaded
      modify_def string_or_absent_def split: option.splits toml_value.splits)

lemma InitDatastore_Return:
  assumes "InitDatastore Init h ms app = Return r"
  shows "\<exists>t entries. Config ms = Some t \<and> DBConfig ms = Some entries \<and>
     (\<forall>k \<in> set db_properties. string_or_absent (t (app @ ''.'' @ k))) \<and>
     (\<forall>p. index_map (DBConfig ms) app = Some p \<longrightarrow> p < length h)"
proof -
  from assms obtain h0 ms' where e: "ensure_entry h ms app = Return (h0, ms')"
    by (auto simp: InitDatastore_def and_then_eq_Return)
  have cfg: "Config ms' = Config ms"
    and ent: "\<exists>entries. DBConfig ms = Some entries"
    and same: "\<And>p. index_map (DBConfig ms) app = Some p \<Longrightarrow> h0 = h \<and> ms' = ms"
    using e by (auto simp: ensure_entry_def alloc_def index_map_def split: if_splits option.splits)
  from assms e obtain h1 h2 h3 h4 h5 h6 h7 where
    a: "assign_field (\<lambda>v d. d\<lparr>Server := v\<rparr>) ''dbserver'' ms' app h0 = Return h1"
       "assign_field (\<lambda>v d. d\<lparr>Port := v\<rparr>) ''dbport'' ms' app h1 = Return h2"
       "assign_field (\<lambda>v d. d\<lparr>Database := v\<rparr>) ''database'' ms' app h2 = Return h3"
       "assign_field (\<lambda>v d. d\<lparr>User := v\<rparr>) ''dbuser'' ms' app h3 = Return h4"
       "assign_field (\<lambda>v d. d\<lparr>Password := v\<rparr>) ''dbpassword'' ms' app h4 = Return h5"
       "assign_field (\<lambda>v d. d\<lparr>Driver := v\<rparr>) ''dbdriver'' ms' app h5 = Return h6"
       "assign_field (\<lambda>v d. d\<lparr>Path := v\<rparr>) ''dbpath'' ms' app h6 = Return h7"
    by (auto simp: InitDatastore_def and_then_eq_Return)
  from a(1) [THEN assign_field_Return] obtain t p where
    t: "Config ms' = Some t" and p: "index_map (DBConfig ms') app = Some p" "p < length h0"
    by blast
  have "string_or_absent (t (app @ ''.'' @ k))" if "k \<in> set db_properties" for k
    using that t a [THEN assign_field_Return] by (auto simp: db_properties_def)
  moreover have "p' < length h" if "index_map (DBConfig ms) app = Some p'" for p'
    using same [OF that] that p by simp
  ultimately show ?thesis using t cfg ent by auto
qed

lemma InitDatastore_ReturnD:
  assumes "InitDatastore Init h ms app = Return (h', ms', b)"
  obtains (entry) t p d where "Config ms = Some t" "index_map (DBConfig ms) app = Some p" "p < length h"
      "\<forall>k \<in> set db_properties. string_or_absent (t (app @ ''.'' @ k))"
      "Init (configured t app (h ! p)) = Return d" "h' = h[p := d]" "ms' = ms" "b"
    | (fresh) t entries d where "Config ms = Some t" "DBConfig ms = Some entries"
      "index_map (DBConfig ms) app = None"
      "\<forall>k \<in> set db_properties. string_or_absent (t (app @ ''.'' @ k))"
      "Init (configured t app zero_DBConfig) = Return d" "h' = h @ [d]"
      "ms' = ms\<lparr>DBConfig := Some (entries(app \<mapsto> Some (length h)))\<rparr>" "b"
proof -
  from InitDatastore_Return [OF assms] obtain t entries where
    l: "Config ms = Some t" "DBConfig ms = Some entries"
      "\<forall>k \<in> set db_properties. string_or_absent (t (app @ ''.'' @ k))"
      "\<forall>p. index_map (DBConfig ms) app = Some p \<longrightarrow> p < length h"
    by blast
  show thesis
  proof (cases "index_map (DBConfig ms) app")
    case None
    from assms InitDatastore_fresh [OF l(1,2) None l(3), of Init h]
    show thesis by (auto simp: and_then_eq_Return intro: fresh [OF l(1,2) None l(3)])
  next
    case (Some p)
    with l(4) have "p < length h" by simp
    from assms InitDatastore_entry [OF l(1) Some this l(3), of Init]
    show thesis by (auto simp: and_then_eq_Return intro: entry [OF l(1) Some \<open>p < length h\<close> l(3)])
  qed
qed

lemma index_map_update:
  "index_map (Some (entries(app \<mapsto> ptr))) a = (if a = app then ptr else index_map (Some entries) a)"
  by (simp add: index_map_def)

lemma InitDatastore_flag:
  "InitDatastore Init h ms app = Return (h', ms', b) \<Longrightarrow> b"
  by (erule InitDatastore_ReturnD) simp_all

text \<open>The two properties of the registry hold again after \<^verbatim>\<open>InitDatastore\<close>.\<close>

lemma InitDatastore_registry_ok:
  assumes "InitDatastore Init h ms app = Return (h', ms', b)" and "registry_ok h ms"
  shows "registry_ok h' ms'"
  using assms(1)
proof (cases rule: InitDatastore_ReturnD)
  case (entry t p d)
  with assms(2) show ?thesis by (simp add: registry_ok_def)
next
  case (fresh t entries d)
  have old: "p < length h \<and> (\<forall>b. index_map (Some entries) b = Some p \<longrightarrow> b = a)"
    if "index_map (Some entries) a = Some p" for a p
    using assms(2) that fresh(2) by (simp add: registry_ok_def)
  have none: "index_map (Some entries) app = None"
    using fresh(2,3) by simp
  show ?thesis
    unfolding registry_ok_def fresh(6,7)
  proof (intro allI impI)
    fix a p
    assume "index_map (DBConfig (ms\<lparr>DBConfig := Some (entries(app \<mapsto> Some (length h)))\<rparr>)) a = Some p"
    then have a: "(if a = app then Some (length h) else index_map (Some entries) a) = Some p"
      by (simp add: index_map_update)
    show "p < length (h @ [d]) \<and>
       (\<forall>b. index_map (DBConfig (ms\<lparr>DBConfig := Some (entries(app \<mapsto> Some (length h)))\<rparr>)) b = Some p \<longrightarrow> b = a)"
    proof (cases "a = app")
      case True
      with a have "p = length h" by simp
      with True old show ?thesis
        by (auto simp: index_map_update split: if_splits)
    next
      case False
      with a have "index_map (Some entries) a = Some p" by simp
      from old [OF this] False show ?thesis
        by (auto simp: index_map_update split: if_splits)
    qed
  qed
qed

text \<open>
  The build on a section whose seven properties are absent or strings. With such a
  configuration loaded, \<^verbatim>\<open>InitDatastore(A)\<close> reads these seven paths and no other: the
  descriptor of \<open>A\<close> (the one bound to \<open>A\<close>, or a new one) gets \<^verbatim>\<open>Server\<close> from
  \<^verbatim>\<open>dbserver\<close>, \<^verbatim>\<open>Port\<close> from \<^verbatim>\<open>dbport\<close>, \<^verbatim>\<open>Database\<close> from \<^verbatim>\<open>database\<close>, \<^verbatim>\<open>User\<close>
  from \<^verbatim>\<open>dbuser\<close>, \<^verbatim>\<open>Password\<close> from \<^verbatim>\<open>dbpassword\<close>, \<^verbatim>\<open>Driver\<close> from \<^verbatim>\<open>dbdriver\<close> and
  \<^verbatim>\<open>Path\<close> from \<^verbatim>\<open>dbpath\<close>, each the configured value when present and the empty
  string when absent, and is handed to the engine's \<^verbatim>\<open>Init\<close>. A missing property never
  stops the build: whenever \<^verbatim>\<open>Init\<close> returns, so does \<^verbatim>\<open>InitDatastore\<close>.
\<close>

theorem InitDatastore_builds_descriptor:
  assumes "Config ms = Some t" and "DBConfig ms = Some entries"
    and "\<forall>k \<in> set db_properties. string_or_absent (t (A @ ''.'' @ k))"
    and "\<forall>p. index_map (DBConfig ms) A = Some p \<longrightarrow> p < length h"
  shows "\<exists>h0 ms0 p.
      ensure_entry h ms A = Return (h0, ms0) \<and> index_map (DBConfig ms0) A = Some p \<and> p < length h0 \<and>
      InitDatastore Init h ms A =
        and_then
          (Init ((h0 ! p)
             \<lparr>Server := value_or_empty t A ''dbserver'',
              Port := value_or_empty t A ''dbport'',
              Database := value_or_empty t A ''database'',
              User := value_or_empty t A ''dbuser'',
              Password := value_or_empty t A ''dbpassword'',
              Driver := value_or_empty t A ''dbdriver'',
              Path := value_or_empty t A ''dbpath''\<rparr>))
          (\<lambda>d. Return (h0[p := d], ms0, True)) \<and>
      ((\<forall>d. \<exists>d'. Init d = Return d') \<longrightarrow> (\<exists>r. InitDatastore Init h ms A = Return r))"
proof (cases "index_map (DBConfig ms) A")
  case None
  let ?h0 = "h @ [zero_DBConfig]" and ?ms0 = "ms\<lparr>DBConfig := Some (entries(A \<mapsto> Some (length h)))\<rparr>"
  have e: "ensure_entry h ms A = Return (?h0, ?ms0)"
    using assms(2) None by (simp add: ensure_entry_def alloc_def)
  have i: "index_map (DBConfig ?ms0) A = Some (length h)" "length h < length ?h0"
    by (simp_all add: index_map_def)
  have eq: "InitDatastore Init h ms A =
      and_then (Init (configured t A (?h0 ! length h))) (\<lambda>d. Return (?h0[length h := d], ?ms0, True))"
    by (simp add: InitDatastore_fresh [OF assms(1,2) None assms(3)])
  have "(\<forall>d. \<exists>d'. Init d = Return d') \<longrightarrow> (\<exists>r. InitDatastore Init h ms A = Return r)"
    unfolding eq by (metis and_then_Return)
  with e i eq show ?thesis
    unfolding configured_def by blast
next
  case (Some p)
  with assms(4) have p: "p < length h" by simp
  have e: "ensure_entry h ms A = Return (h, ms)"
    using Some by (simp add: ensure_entry_def)
  have eq: "InitDatastore Init h ms A =
      and_then (Init (configured t A (h ! p))) (\<lambda>d. Return (h[p := d], ms, True))"
    by (rule InitDatastore_entry [OF assms(1) Some p assms(3)])
  have "(\<forall>d. \<exists>d'. Init d = Return d') \<longrightarrow> (\<exists>r. InitDatastore Init h ms A = Return r)"
    unfolding eq by (metis and_then_Return)
  with e Some p eq show ?thesis
    unfolding configured_def by blast
qed

theorem InitDatastore_builds_descriptor_witness:
  "InitDatastore sqlite_only [] shop_manager ''shop'' =
     Return ([\<lparr>Server = [], Port = [], Database = [], User = [], Password = [],
               Driver = ''sqlite3'', Path = ''shop.db'', Connection = Some (GormDB 1)\<rparr>],
             shop_manager\<lparr>DBConfig := Some [''shop'' \<mapsto> Some 0]\<rparr>, True)"
proof -
  have c: "Config shop_manager = Some shop_tree" and m: "DBConfig shop_manager = Some Map.empty"
    by (simp_all add: shop_manager_def)
  have s: "\<forall>k \<in> set db_properties. string_or_absent (shop_tree (''shop'' @ ''.'' @ k))"
    by (simp add: db_properties_def string_or_absent_def shop_tree_def tree_of_def)
  have v: "\<forall>p. index_map (DBConfig shop_manager) ''shop'' = Some p \<longrightarrow> p < length ([]::store)"
    by (simp add: shop_manager_def index_map_def)
  have e: "ensure_entry [] shop_manager ''shop'' =
      Return ([zero_DBConfig], shop_manager\<lparr>DBConfig := Some [''shop'' \<mapsto> Some 0]\<rparr>)"
    by (simp add: ensure_entry_def alloc_def shop_manager_def index_map_def)
  from InitDatastore_builds_descriptor [OF c m s v, of sqlite_only] e
  show ?thesis
    by (auto simp: index_map_def value_or_empty_def shop_tree_def tree_of_def sqlite_only_def
        zero_DBConfig_def)
qed

text \<open>
  C3. A property that is present with another type than string stops the build. For
  \<^verbatim>\<open>[shop] dbport = 5432\<close>, \<^verbatim>\<open>InitDatastore("shop")\<close> binds a new descriptor, writes
  \<^verbatim>\<open>Server\<close>, and panics in the type assertion of \<^verbatim>\<open>GetAppProperty\<close> on the line that
  fills \<^verbatim>\<open>Port\<close>: no later field is assigned and \<^verbatim>\<open>Init\<close> is not called, whatever the
  engine is.
\<close>

theorem InitDatastore_int_port_aborts:
  "InitDatastore Init [] \<lparr>Config = Some int_port_tree, DBConfig = Some Map.empty\<rparr> ''shop'' =
     Panic InterfaceConversion \<and>
   ensure_entry [] \<lparr>Config = Some int_port_tree, DBConfig = Some Map.empty\<rparr> ''shop'' =
     Return ([zero_DBConfig], \<lparr>Config = Some int_port_tree, DBConfig = Some [''shop'' \<mapsto> Some 0]\<rparr>) \<and>
   assign_field (\<lambda>v d. d\<lparr>Server := v\<rparr>) ''dbserver''
     \<lparr>Config = Some int_port_tree, DBConfig = Some [''shop'' \<mapsto> Some 0]\<rparr> ''shop'' [zero_DBConfig] =
     Return [zero_DBConfig] \<and>
   assign_field (\<lambda>v d. d\<lparr>Port := v\<rparr>) ''dbport''
     \<lparr>Config = Some int_port_tree, DBConfig = Some [''shop'' \<mapsto> Some 0]\<rparr> ''shop'' [zero_DBConfig] =
     Panic InterfaceConversion"
proof -
  let ?ms = "\<lparr>Config = Some int_port_tree, DBConfig = Some Map.empty\<rparr>"
  let ?ms' = "\<lparr>Config = Some int_port_tree, DBConfig = Some [''shop'' \<mapsto> Some 0]\<rparr>"
  have e: "ensure_entry [] ?ms ''shop'' = Return ([zero_DBConfig], ?ms')"
    by (simp add: ensure_entry_def alloc_def index_map_def)
  have s: "GetAppProperty ?ms' ''shop'' ''dbserver'' = Return ([], Some (missing_property ''dbserver'' ''shop''))"
    by (simp add: GetAppProperty_def Get_def int_port_tree_def tree_of_def)
  have p: "GetAppProperty ?ms' ''shop'' ''dbport'' = Panic InterfaceConversion"
    by (simp add: GetAppProperty_def Get_def assert_string_def int_port_tree_def tree_of_def)
  have a1: "assign_field (\<lambda>v d. d\<lparr>Server := v\<rparr>) ''dbserver'' ?ms' ''shop'' [zero_DBConfig] =
      Return [zero_DBConfig]"
    by (simp add: assign_field_def s modify_def index_map_def zero_DBConfig_def)
  have a2: "assign_field (\<lambda>v d. d\<lparr>Port := v\<rparr>) ''dbport'' ?ms' ''shop'' [zero_DBConfig] =
      Panic InterfaceConversion"
    by (simp add: assign_field_def p)
  have "InitDatastore Init [] ?ms ''shop'' = Panic InterfaceConversion"
    by (simp add: InitDatastore_def e a1 a2)
  with e a1 a2 show ?thesis
    by (intro conjI)
qed

text \<open>
  C2. The flag that \<^verbatim>\<open>InitDatastore\<close> returns is the constant \<^verbatim>\<open>true\<close>. For an application
  with no section in the configuration the engine opens no connection, the handle of the
  descriptor stays nil, and the call still reports success.
\<close>

theorem InitDatastore_true_without_connection:
  "InitDatastore sqlite_only [] shop_manager ''blog'' =
     Return ([zero_DBConfig], shop_manager\<lparr>DBConfig := Some [''blog'' \<mapsto> Some 0]\<rparr>, True) \<and>
   Connection zero_DBConfig = None"
proof -
  have c: "Config shop_manager = Some shop_tree" and m: "DBConfig shop_manager = Some Map.empty"
    and i: "index_map (DBConfig shop_manager) ''blog'' = None"
    by (simp_all add: shop_manager_def index_map_def)
  have s: "\<forall>k \<in> set db_properties. string_or_absent (shop_tree (''blog'' @ ''.'' @ k))"
    by (simp add: db_properties_def string_or_absent_def shop_tree_def tree_of_def)
  show ?thesis
    by (simp add: InitDatastore_fresh [OF c m i s] configured_def value_or_empty_def shop_tree_def
        tree_of_def sqlite_only_def zero_DBConfig_def)
qed

section \<open>Registering again\<close>

lemma InitDatastore_result_fields:
  assumes "keeps_fields Init" and "InitDatastore Init h ms A = Return (h', ms', b)"
  shows "\<exists>p t. index_map (DBConfig ms') A = Some p \<and> p < length h' \<and> Config ms = Some t \<and>
     fields (h' ! p) = map (value_or_empty t A) db_properties \<and>
     (\<forall>q. index_map (DBConfig ms) A = Some q \<longrightarrow> q = p)"
  using assms(2)
proof (cases rule: InitDatastore_ReturnD)
  case (entry t p d)
  from assms(1) entry(5) have "fields d = fields (configured t A (h ! p))"
    by (simp add: keeps_fields_def)
  with entry show ?thesis
    by (simp add: fields_configured)
next
  case (fresh t entries d)
  from assms(1) fresh(5) have "fields d = fields (configured t A zero_DBConfig)"
    by (simp add: keeps_fields_def)
  with fresh show ?thesis
    by (simp add: fields_configured index_map_def)
qed

text \<open>
  C4. With an engine that leaves the seven fields alone, take a call \<^verbatim>\<open>InitDatastore(A)\<close>
  that returns, and a second one that returns, from the store the first left and any
  manager (the same one, one with another configuration, one reloaded). Each call leaves
  under \<open>A\<close> a descriptor whose seven fields are the values of its own configuration,
  empty where a property is absent, whatever the descriptor held before; when the seven
  paths of \<open>A\<close> are unchanged the two descriptors have the same seven fields; and with
  the registry unchanged the second call writes the descriptor of the first.
\<close>

theorem InitDatastore_overwrites:
  assumes "keeps_fields Init"
    and "InitDatastore Init h ms A = Return (h1, ms1, b1)"
    and "InitDatastore Init h1 ms1' A = Return (h2, ms2, b2)"
  shows "\<exists>p1 p2 t t'.
      index_map (DBConfig ms1) A = Some p1 \<and> p1 < length h1 \<and>
      index_map (DBConfig ms2) A = Some p2 \<and> p2 < length h2 \<and>
      Config ms = Some t \<and> Config ms1' = Some t' \<and>
      fields (h1 ! p1) = map (value_or_empty t A) db_properties \<and>
      fields (h2 ! p2) = map (value_or_empty t' A) db_properties \<and>
      ((\<forall>k \<in> set db_properties. t' (A @ ''.'' @ k) = t (A @ ''.'' @ k)) \<longrightarrow>
         fields (h2 ! p2) = fields (h1 ! p1)) \<and>
      (DBConfig ms1' = DBConfig ms1 \<longrightarrow> p2 = p1)"
proof -
  from InitDatastore_result_fields [OF assms(1,2)] obtain p1 t where
    1: "index_map (DBConfig ms1) A = Some p1" "p1 < length h1" "Config ms = Some t"
      "fields (h1 ! p1) = map (value_or_empty t A) db_properties"
    by blast
  from InitDatastore_result_fields [OF assms(1,3)] obtain p2 t' where
    2: "index_map (DBConfig ms2) A = Some p2" "p2 < length h2" "Config ms1' = Some t'"
      "fields (h2 ! p2) = map (value_or_empty t' A) db_properties"
      "\<forall>q. index_map (DBConfig ms1') A = Some q \<longrightarrow> q = p2"
    by blast
  have "map (value_or_empty t' A) db_properties = map (value_or_empty t A) db_properties"
    if "\<forall>k \<in> set db_properties. t' (A @ ''.'' @ k) = t (A @ ''.'' @ k)"
    using that by (simp add: value_or_empty_def)
  moreover have "p2 = p1" if "DBConfig ms1' = DBConfig ms1"
    using that 1(1) 2(5) by simp
  ultimately show ?thesis
    using 1 2 by auto
qed


theorem InitDatastore_overwrites_witness:
  "\<exists>h1 ms1 h2 ms2.
     InitDatastore sqlite_only [] shop_manager ''shop'' = Return (h1, ms1, True) \<and>
     InitDatastore sqlite_only h1 (ms1\<lparr>Config := Some server_tree\<rparr>) ''shop'' = Return (h2, ms2, True) \<and>
     index_map (DBConfig ms2) ''shop'' = Some 0 \<and>
     fields (h1 ! 0) = [[], [], [], [], [], ''sqlite3'', ''shop.db''] \<and>
     fields (h2 ! 0) = [''db.local'', [], [], [], [], [], []]"
proof -
  let ?d1 = "\<lparr>Server = [], Port = [], Database = [], User = [], Password = [],
               Driver = ''sqlite3'', Path = ''shop.db'', Connection = Some (GormDB 1)\<rparr>"
  let ?ms1 = "shop_manager\<lparr>DBConfig := Some [''shop'' \<mapsto> Some 0]\<rparr>"
  let ?d2 = "\<lparr>Server = ''db.local'', Port = [], Database = [], User = [], Password = [],
               Driver = [], Path = [], Connection = None\<rparr>"
  let ?ms2 = "?ms1\<lparr>Config := Some server_tree\<rparr>"
  have k: "keeps_fields sqlite_only"
    by (simp add: keeps_fields_def sqlite_only_def fields_def split: if_splits)
  have c: "Config shop_manager = Some shop_tree" and m: "DBConfig shop_manager = Some Map.empty"
    and i: "index_map (DBConfig shop_manager) ''shop'' = None"
    by (simp_all add: shop_manager_def index_map_def)
  have s: "\<forall>k \<in> set db_properties. string_or_absent (shop_tree (''shop'' @ ''.'' @ k))"
    by (simp add: db_properties_def string_or_absent_def shop_tree_def tree_of_def)
  have first: "InitDatastore sqlite_only [] shop_manager ''shop'' = Return ([?d1], ?ms1, True)"
    by (simp add: InitDatastore_fresh [OF c m i s] configured_def value_or_empty_def shop_tree_def
        tree_of_def sqlite_only_def zero_DBConfig_def)
  have c': "Config ?ms2 = Some server_tree" and i': "index_map (DBConfig ?ms2) ''shop'' = Some 0"
    by (simp_all add: index_map_def)
  have s': "\<forall>k \<in> set db_properties. string_or_absent (server_tree (''shop'' @ ''.'' @ k))"
    by (simp add: db_properties_def string_or_absent_def server_tree_def tree_of_def)
  have "InitDatastore sqlite_only [?d1] ?ms2 ''shop'' =
      and_then (sqlite_only (configured server_tree ''shop'' ([?d1] ! 0))) (\<lambda>d. Return ([?d1][0 := d], ?ms2, True))"
    by (rule InitDatastore_entry [OF c' i' _ s']) simp
  moreover have "configured server_tree ''shop'' ([?d1] ! 0) = ?d2\<lparr>Connection := Some (GormDB 1)\<rparr>"
    by (simp add: configured_def value_or_empty_def server_tree_def tree_of_def)
  ultimately have second: "InitDatastore sqlite_only [?d1] ?ms2 ''shop'' = Return ([?d2], ?ms2, True)"
    by (simp add: sqlite_only_def)
  from InitDatastore_overwrites [OF k first second] i' c c'
  have "fields ([?d1] ! 0) = map (value_or_empty shop_tree ''shop'') db_properties \<and>
      fields ([?d2] ! 0) = map (value_or_empty server_tree ''shop'') db_properties"
    by auto
  then have "fields ([?d1] ! 0) = [[], [], [], [], [], ''sqlite3'', ''shop.db''] \<and>
      fields ([?d2] ! 0) = [''db.local'', [], [], [], [], [], []]"
    by (simp add: db_properties_def value_or_empty_def shop_tree_def server_tree_def tree_of_def)
  with first second i' show ?thesis
    by blast
qed

section \<open>What the build result shows\<close>

lemma Config_DBConfig_update:
  "ms\<lparr>DBConfig := m, Config := c\<rparr> = ms\<lparr>Config := c, DBConfig := m\<rparr>"
  by (cases ms) simp

lemma configured_cong:
  assumes "\<forall>k \<in> set db_properties. value_or_empty t1 A k = value_or_empty t2 A k"
  shows "configured t1 A d = configured t2 A d"
  using assms by (simp add: configured_def db_properties_def)

text \<open>
  C9, as amended. The result of \<^verbatim>\<open>InitDatastore(A)\<close> does not show which fields were
  resolved: two configurations that resolve the seven properties of \<open>A\<close> to the same
  strings, an absent property counting as the empty string, give the same outcome, the
  same store, the same registry and the same flag; only the configuration that was put
  in differs.
\<close>

theorem InitDatastore_hides_resolution:
  assumes "\<forall>k \<in> set db_properties.
      string_or_absent (t1 (A @ ''.'' @ k)) \<and> string_or_absent (t2 (A @ ''.'' @ k)) \<and>
      value_or_empty t1 A k = value_or_empty t2 A k"
  shows "InitDatastore Init h (ms\<lparr>Config := Some t2\<rparr>) A =
     and_then (InitDatastore Init h (ms\<lparr>Config := Some t1\<rparr>) A)
       (\<lambda>(h', ms', b). Return (h', ms'\<lparr>Config := Some t2\<rparr>, b))"
proof -
  have s1: "\<forall>k \<in> set db_properties. string_or_absent (t1 (A @ ''.'' @ k))"
    and s2: "\<forall>k \<in> set db_properties. string_or_absent (t2 (A @ ''.'' @ k))"
    and v: "\<forall>k \<in> set db_properties. value_or_empty t1 A k = value_or_empty t2 A k"
    using assms by blast+
  let ?m1 = "ms\<lparr>Config := Some t1\<rparr>" and ?m2 = "ms\<lparr>Config := Some t2\<rparr>"
  have c: "Config ?m1 = Some t1" "Config ?m2 = Some t2"
    by simp_all
  show ?thesis
  proof (cases "DBConfig ms")
    case None
    then show ?thesis by (simp add: InitDatastore_nil_map)
  next
    case (Some entries)
    then have e: "DBConfig ?m1 = Some entries" "DBConfig ?m2 = Some entries"
      by simp_all
    show ?thesis
    proof (cases "index_map (DBConfig ms) A")
      case None
      then have i: "index_map (DBConfig ?m1) A = None" "index_map (DBConfig ?m2) A = None"
        by simp_all
      show ?thesis
        by (simp add: InitDatastore_fresh [OF c(1) e(1) i(1) s1] InitDatastore_fresh [OF c(2) e(2) i(2) s2]
            configured_cong [OF v] Config_DBConfig_update)
    next
      case (Some p)
      then have i: "index_map (DBConfig ?m1) A = Some p" "index_map (DBConfig ?m2) A = Some p"
        by simp_all
      show ?thesis
      proof (cases "p < length h")
        case True
        show ?thesis
          by (simp add: InitDatastore_entry [OF c(1) i(1) True s1] InitDatastore_entry [OF c(2) i(2) True s2]
              configured_cong [OF v])
      next
        case False
        have "string_or_absent (t1 (A @ ''.'' @ ''dbserver''))" "string_or_absent (t2 (A @ ''.'' @ ''dbserver''))"
          using s1 s2 by (simp_all add: db_properties_def)
        then show ?thesis
          by (simp add: InitDatastore_outside_store [OF c(1) i(1) False]
              InitDatastore_outside_store [OF c(2) i(2) False])
      qed
    qed
  qed
qed

theorem InitDatastore_hides_resolution_witness:
  "InitDatastore sqlite_only [] (shop_manager\<lparr>Config := Some absent_path_tree\<rparr>) ''shop'' =
     and_then (InitDatastore sqlite_only [] (shop_manager\<lparr>Config := Some empty_path_tree\<rparr>) ''shop'')
       (\<lambda>(h', ms', b). Return (h', ms'\<lparr>Config := Some absent_path_tree\<rparr>, b))"
proof -
  have "\<forall>k \<in> set db_properties.
      string_or_absent (empty_path_tree (''shop'' @ ''.'' @ k)) \<and>
      string_or_absent (absent_path_tree (''shop'' @ ''.'' @ k)) \<and>
      value_or_empty empty_path_tree ''shop'' k = value_or_empty absent_path_tree ''shop'' k"
    by (simp add: db_properties_def string_or_absent_def value_or_empty_def empty_path_tree_def
        absent_path_tree_def tree_of_def)
  then show ?thesis
    by (rule InitDatastore_hides_resolution)
qed

theorem InitDatastore_exposes_resolution_counterexample:
  "InitDatastore sqlite_only [] \<lparr>Config = Some empty_path_tree, DBConfig = Some Map.empty\<rparr> ''shop'' =
     Return ([\<lparr>Server = [], Port = [], Database = [], User = [], Password = [],
               Driver = ''sqlite3'', Path = [], Connection = None\<rparr>],
             \<lparr>Config = Some empty_path_tree, DBConfig = Some [''shop'' \<mapsto> Some 0]\<rparr>, True) \<and>
   InitDatastore sqlite_only [] \<lparr>Config = Some absent_path_tree, DBConfig = Some Map.empty\<rparr> ''shop'' =
     Return ([\<lparr>Server = [], Port = [], Database = [], User = [], Password = [],
               Driver = ''sqlite3'', Path = [], Connection = None\<rparr>],
             \<lparr>Config = Some absent_path_tree, DBConfig = Some [''shop'' \<mapsto> Some 0]\<rparr>, True)"
proof -
  have s: "\<forall>k \<in> set db_properties. string_or_absent (empty_path_tree (''shop'' @ ''.'' @ k))"
    "\<forall>k \<in> set db_properties. string_or_absent (absent_path_tree (''shop'' @ ''.'' @ k))"
    by (simp_all add: db_properties_def string_or_absent_def empty_path_tree_def
        absent_path_tree_def tree_of_def)
  have "InitDatastore sqlite_only [] \<lparr>Config = Some t, DBConfig = Some Map.empty\<rparr> ''shop'' =
      and_then (sqlite_only (configured t ''shop'' zero_DBConfig))
        (\<lambda>d. Return ([d], \<lparr>Config = Some t, DBConfig = Some [''shop'' \<mapsto> Some 0]\<rparr>, True))"
    if "\<forall>k \<in> set db_properties. string_or_absent (t (''shop'' @ ''.'' @ k))" for t
    using InitDatastore_fresh [of "\<lparr>Config = Some t, DBConfig = Some Map.empty\<rparr>" t Map.empty "''shop''" sqlite_only "[]"] that
    by (simp add: index_map_def)
  note run = this
  have d: "configured empty_path_tree ''shop'' zero_DBConfig =
      \<lparr>Server = [], Port = [], Database = [], User = [], Password = [],
       Driver = ''sqlite3'', Path = [], Connection = None\<rparr>"
    "configured absent_path_tree ''shop'' zero_DBConfig =
      \<lparr>Server = [], Port = [], Database = [], User = [], Password = [],
       Driver = ''sqlite3'', Path = [], Connection = None\<rparr>"
    by (simp_all add: configured_def value_or_empty_def empty_path_tree_def absent_path_tree_def
        tree_of_def zero_DBConfig_def)
  show ?thesis
    by (simp add: run [OF s(1)] run [OF s(2)] d sqlite_only_def)
qed


section \<open>What a registration leaves alone\<close>

text \<open>
  C10. On a registry as the package builds it (every pointer in the store, no descriptor
  shared by two names), a call \<^verbatim>\<open>InitDatastore(A)\<close> that returns leaves the configuration
  tree as it was, leaves the registry entry of every other name \<open>B\<close> as it was, and
  leaves the descriptor behind it, connection handle included, as it was; and the entry
  of \<open>A\<close> is then a pointer to a descriptor in the store. With a loaded manager the call
  does return when the configuration has no section for \<open>A\<close> and the engine returns,
  and the entry of \<open>A\<close> is present.
\<close>

theorem InitDatastore_frame:
  assumes "registry_ok h ms"
  shows "(InitDatastore Init h ms A = Return (h', ms', b) \<longrightarrow>
       Config ms' = Config ms \<and>
       (\<exists>entries entries'. DBConfig ms = Some entries \<and> DBConfig ms' = Some entries' \<and>
          (\<forall>B. B \<noteq> A \<longrightarrow> entries' B = entries B)) \<and>
       (\<forall>B p. B \<noteq> A \<longrightarrow> index_map (DBConfig ms) B = Some p \<longrightarrow> h' ! p = h ! p) \<and>
       (\<exists>p. index_map (DBConfig ms') A = Some p \<and> p < length h')) \<and>
     (Config ms = Some t \<and> DBConfig ms \<noteq> None \<and> (\<forall>k. t (A @ ''.'' @ k) = None) \<and>
      (\<forall>d. \<exists>d'. Init d = Return d') \<longrightarrow>
       (\<exists>h' ms' p. InitDatastore Init h ms A = Return (h', ms', True) \<and>
          index_map (DBConfig ms') A = Some p \<and> p < length h'))"
proof (intro conjI impI)
  assume r: "InitDatastore Init h ms A = Return (h', ms', b)"
  then show "Config ms' = Config ms"
    by (cases rule: InitDatastore_ReturnD) simp_all
  from r show "\<exists>entries entries'. DBConfig ms = Some entries \<and> DBConfig ms' = Some entries' \<and>
      (\<forall>B. B \<noteq> A \<longrightarrow> entries' B = entries B)"
  proof (cases rule: InitDatastore_ReturnD)
    case (entry t p d)
    then show ?thesis by (auto simp: index_map_def split: option.splits)
  next
    case (fresh t entries d)
    then show ?thesis by simp
  qed
  from r show "\<forall>B p. B \<noteq> A \<longrightarrow> index_map (DBConfig ms) B = Some p \<longrightarrow> h' ! p = h ! p"
  proof (cases rule: InitDatastore_ReturnD)
    case (entry t q d)
    show ?thesis
    proof (intro allI impI)
      fix B p
      assume "B \<noteq> A" and B: "index_map (DBConfig ms) B = Some p"
      with assms entry(2) have "p \<noteq> q"
        by (auto simp: registry_ok_def)
      with entry(6) show "h' ! p = h ! p" by simp
    qed
  next
    case (fresh t entries d)
    show ?thesis
    proof (intro allI impI)
      fix B p
      assume "B \<noteq> A" and B: "index_map (DBConfig ms) B = Some p"
      with assms have "p < length h"
        by (simp add: registry_ok_def)
      with fresh(6) show "h' ! p = h ! p" by (simp add: nth_append)
    qed
  qed
  from r show "\<exists>p. index_map (DBConfig ms') A = Some p \<and> p < length h'"
  proof (cases rule: InitDatastore_ReturnD)
    case (entry t p d)
    then show ?thesis by simp
  next
    case (fresh t entries d)
    then show ?thesis by (simp add: index_map_def)
  qed
next
  assume a: "Config ms = Some t \<and> DBConfig ms \<noteq> None \<and> (\<forall>k. t (A @ ''.'' @ k) = None) \<and>
      (\<forall>d. \<exists>d'. Init d = Return d')"
  then obtain entries where e: "DBConfig ms = Some entries" by auto
  from a have c: "Config ms = Some t"
    and s: "\<forall>k \<in> set db_properties. string_or_absent (t (A @ ''.'' @ k))"
    by (simp_all add: string_or_absent_def)
  show "\<exists>h' ms' p. InitDatastore Init h ms A = Return (h', ms', True) \<and>
      index_map (DBConfig ms') A = Some p \<and> p < length h'"
  proof (cases "index_map (DBConfig ms) A")
    case None
    from a obtain d where "Init (configured t A zero_DBConfig) = Return d" by blast
    then show ?thesis
      by (simp add: InitDatastore_fresh [OF c e None s] index_map_def)
  next
    case (Some p)
    with assms have p: "p < length h" by (simp add: registry_ok_def)
    from a obtain d where "Init (configured t A (h ! p)) = Return d" by blast
    with Some p show ?thesis
      by (simp add: InitDatastore_entry [OF c Some p s])
  qed
qed

theorem InitDatastore_frame_witness:
  "InitDatastore sqlite_only [blog_descriptor] blog_manager ''shop'' =
     Return ([blog_descriptor, 
              \<lparr>Server = [], Port = [], Database = [], User = [], Password = [],
               Driver = ''sqlite3'', Path = ''shop.db'', Connection = Some (GormDB 1)\<rparr>],
             blog_manager\<lparr>DBConfig := Some [''blog'' \<mapsto> Some 0, ''shop'' \<mapsto> Some 1]\<rparr>, True) \<and>
   index_map (DBConfig blog_manager) ''blog'' = Some 0 \<and>
   [blog_descriptor,
    \<lparr>Server = [], Port = [], Database = [], User = [], Password = [],
     Driver = ''sqlite3'', Path = ''shop.db'', Connection = Some (GormDB 1)\<rparr>] ! 0 = [blog_descriptor] ! 0"
proof -
  let ?d = "\<lparr>Server = [], Port = [], Database = [], User = [], Password = [],
               Driver = ''sqlite3'', Path = ''shop.db'', Connection = Some (GormDB 1)\<rparr>"
  let ?ms = "blog_manager\<lparr>DBConfig := Some [''blog'' \<mapsto> Some 0, ''shop'' \<mapsto> Some 1]\<rparr>"
  have ok: "registry_ok [blog_descriptor] blog_manager"
    by (auto simp: registry_ok_def blog_manager_def index_map_def split: if_splits)
  have c: "Config blog_manager = Some shop_tree"
    and m: "DBConfig blog_manager = Some [''blog'' \<mapsto> Some 0]"
    and i: "index_map (DBConfig blog_manager) ''shop'' = None"
    and j: "index_map (DBConfig blog_manager) ''blog'' = Some 0"
    by (simp_all add: blog_manager_def index_map_def)
  have s: "\<forall>k \<in> set db_properties. string_or_absent (shop_tree (''shop'' @ ''.'' @ k))"
    by (simp add: db_properties_def string_or_absent_def shop_tree_def tree_of_def)
  have d: "configured shop_tree ''shop'' zero_DBConfig = ?d\<lparr>Connection := None\<rparr>"
    by (simp add: configured_def value_or_empty_def shop_tree_def tree_of_def zero_DBConfig_def)
  have run: "InitDatastore sqlite_only [blog_descriptor] blog_manager ''shop'' =
      Return ([blog_descriptor, ?d], ?ms, True)"
    by (simp add: InitDatastore_fresh [OF c m i s] d sqlite_only_def)
  note frame = InitDatastore_frame [OF ok, of sqlite_only "''shop''" "[blog_descriptor, ?d]" ?ms True,
      THEN conjunct1, THEN mp, OF run]
  have "''blog'' \<noteq> ''shop''"
    by simp
  with frame j have "[blog_descriptor, ?d] ! 0 = [blog_descriptor] ! 0"
    by (elim conjE allE [of _ "''blog''"] allE [of _ "0::nat"]) (erule impE, assumption, erule impE, assumption, assumption)
  with run j show ?thesis
    by (intro conjI)
qed

end
